theory Spec2Isabelle
  imports Complex_Main "HOL-Library.Multiset"
begin

section \<open>SXA backend: scoring, insights and the two stores\<close>

text \<open>
  A shallow embedding of \<^verbatim>\<open>src/backend.js\<close>: the sport-pattern registry, the weighted
  score of \<^verbatim>\<open>analyzeVideo\<close>, the rule list of \<^verbatim>\<open>generateInsights\<close>, and the three
  route handlers that read or write the SQLite tables.

  Conventions of the model.
  \<^item> A JavaScript number is the rational it denotes (\<open>number\<close>). The registry keeps its
    decimal literals as written; reading one yields the nearest binary64 value, and every
    sum and product of the source is rounded to binary64 (\<open>fl\<close>, \<open>fadd\<close>, \<open>fmul\<close>). The
    arithmetic has no overflow: a result beyond the binary64 range, where JavaScript
    yields an infinity, arises neither from the registry's weights with scores up to
    \<open>100\<close> nor from draws of \<^verbatim>\<open>Math.random()\<close>, which lie in \<open>[0, 1)\<close>. The sign of a zero is
    not kept.
  \<^item> \<^verbatim>\<open>undefined\<close> and \<^verbatim>\<open>null\<close> are \<open>None\<close>. A value is falsy when it is \<open>None\<close>, the
    number \<open>0\<close> or the empty string.
  \<^item> A thrown exception is the \<open>Inl\<close> branch of a sum.
  \<^item> \<^verbatim>\<open>Math.random()\<close>, \<^verbatim>\<open>uuidv4()\<close> and SQLite's \<^verbatim>\<open>datetime('now')\<close> are inputs: the
    draws as a function from the call's position to its value, the identifier and the
    clock reading as arguments.
\<close>

type_synonym number = rat

subsection \<open>Binary64 arithmetic\<close>

text \<open>
  \<open>bits n\<close> is the length of \<open>n\<close> in binary and \<open>ilog2 x\<close>, for a positive \<open>x\<close>, the
  exponent \<open>e\<close> with \<open>2 ^ e \<le> x < 2 ^ (e + 1)\<close>.
\<close>

fun bits :: "nat \<Rightarrow> nat" where
  "bits n = (if n = 0 then 0 else Suc (bits (n div 2)))"

declare bits.simps [simp del]

definition ilog2 :: "rat \<Rightarrow> int" where
  "ilog2 x =
     (if 1 \<le> x then int (bits (nat \<lfloor>x\<rfloor>)) - 1
      else let k = bits (nat \<lfloor>1 / x\<rfloor>) - 1
           in if 1 \<le> x * 2 ^ k then - int k else - int k - 1)"

definition pow2 :: "int \<Rightarrow> rat" where
  "pow2 e = (if 0 \<le> e then 2 ^ nat e else 1 / 2 ^ nat (- e))"

text \<open>The nearest integer, a tie going to the even one.\<close>

definition round_half_even :: "rat \<Rightarrow> int" where
  "round_half_even x =
     (let n = \<lfloor>x\<rfloor>; d = x - of_int n
      in if d < 1/2 then n else if 1/2 < d then n + 1 else if even n then n else n + 1)"

text \<open>
  \<open>fl x\<close> is the binary64 value nearest to \<open>x\<close>, a tie going to the even significand:
  a multiple of \<open>2 ^ e\<close> where \<open>e\<close> leaves 53 significant bits, and never less than
  \<open>- 1074\<close>, the exponent of the subnormal values. The operations of IEEE 754 return
  the rounded exact result.
\<close>

definition fl :: "rat \<Rightarrow> number" where
  "fl x =
     (if x = 0 then 0
      else let e = max (ilog2 \<bar>x\<bar> - 52) (- 1074)
           in of_int (round_half_even (x / pow2 e)) * pow2 e)"

definition fadd :: "number \<Rightarrow> number \<Rightarrow> number" where
  "fadd a b = fl (a + b)"

definition fmul :: "number \<Rightarrow> number \<Rightarrow> number" where
  "fmul a b = fl (a * b)"

subsection \<open>The sport-pattern registry\<close>

text \<open>
  An object literal is the list of its own properties, in the order written. The weights
  of a pattern are read by key (\<^verbatim>\<open>weights[k]\<close>), so they stay a property list, each with
  the decimal that the source writes.
\<close>

type_synonym weights = "(string \<times> number) list"

record sport_pattern =
  name :: string
  weights :: weights

definition mk_weights :: "number \<Rightarrow> number \<Rightarrow> number \<Rightarrow> number \<Rightarrow> number \<Rightarrow> weights" where
  "mk_weights f p c b t =
     [(''form'', f), (''power'', p), (''consistency'', c), (''balance'', b), (''timing'', t)]"

definition SPORT_PATTERNS :: "(string \<times> sport_pattern) list" where
  "SPORT_PATTERNS =
   [(''long-jump'',  \<lparr>name = ''Long Jump'',
       weights = mk_weights (30/100) (20/100) (20/100) (15/100) (15/100)\<rparr>),
    (''high-jump'',  \<lparr>name = ''High Jump'',
       weights = mk_weights (35/100) (20/100) (18/100) (12/100) (15/100)\<rparr>),
    (''sprinting'',  \<lparr>name = ''Sprinting'',
       weights = mk_weights (25/100) (25/100) (25/100) (10/100) (15/100)\<rparr>),
    (''basketball'', \<lparr>name = ''Basketball Shooting'',
       weights = mk_weights (35/100) (15/100) (25/100) (15/100) (10/100)\<rparr>),
    (''soccer'',     \<lparr>name = ''Soccer Kicking'',
       weights = mk_weights (30/100) (20/100) (20/100) (15/100) (15/100)\<rparr>),
    (''tennis'',     \<lparr>name = ''Tennis Serve'',
       weights = mk_weights (32/100) (18/100) (22/100) (13/100) (15/100)\<rparr>),
    (''running'',    \<lparr>name = ''Distance Running'',
       weights = mk_weights (25/100) (20/100) (30/100) (15/100) (10/100)\<rparr>),
    (''golf'',       \<lparr>name = ''Golf Swing'',
       weights = mk_weights (35/100) (20/100) (25/100) (12/100) (8/100)\<rparr>),
    (''yoga'',       \<lparr>name = ''Yoga'',
       weights = mk_weights (40/100) (5/100) (20/100) (30/100) (5/100)\<rparr>),
    (''jumping'',    \<lparr>name = ''Jump Training'',
       weights = mk_weights (25/100) (35/100) (20/100) (12/100) (8/100)\<rparr>),
    (''swimming'',   \<lparr>name = ''Swimming'',
       weights = mk_weights (35/100) (20/100) (25/100) (10/100) (10/100)\<rparr>),
    (''cycling'',    \<lparr>name = ''Cycling'',
       weights = mk_weights (30/100) (25/100) (25/100) (12/100) (8/100)\<rparr>)]"

definition running_pattern :: sport_pattern where
  "running_pattern = \<lparr>name = ''Distance Running'',
       weights = mk_weights (25/100) (20/100) (30/100) (15/100) (10/100)\<rparr>"

text \<open>
  \<^verbatim>\<open>SPORT_PATTERNS\<close> is an ordinary object, so a property read that finds no own property
  goes on to \<^verbatim>\<open>Object.prototype\<close>. These are the names defined there (Node.js); each of
  them reads as a function or an object, which is truthy and has no \<^verbatim>\<open>weights\<close> property.
\<close>

definition Object_prototype_keys :: "string list" where
  "Object_prototype_keys =
   [''constructor'', ''__defineGetter__'', ''__defineSetter__'', ''hasOwnProperty'',
    ''__lookupGetter__'', ''__lookupSetter__'', ''isPrototypeOf'', ''propertyIsEnumerable'',
    ''toString'', ''valueOf'', ''__proto__'', ''toLocaleString'']"

datatype js_value = Pattern sport_pattern | Inherited string

text \<open>\<^verbatim>\<open>SPORT_PATTERNS[k]\<close>; \<open>None\<close> is \<^verbatim>\<open>undefined\<close>.\<close>

definition get_pattern :: "string \<Rightarrow> js_value option" where
  "get_pattern k =
     (case map_of SPORT_PATTERNS k of
        Some p \<Rightarrow> Some (Pattern p)
      | None \<Rightarrow> if k \<in> set Object_prototype_keys then Some (Inherited k) else None)"

text \<open>\<^verbatim>\<open>SPORT_PATTERNS[sportKey] || SPORT_PATTERNS.running\<close> (line 149).\<close>

definition resolve_pattern :: "string \<Rightarrow> js_value" where
  "resolve_pattern sportKey =
     (case get_pattern sportKey of Some v \<Rightarrow> v | None \<Rightarrow> Pattern running_pattern)"

subsection \<open>Scores and the weighted overall score\<close>

record raw_scores =
  form :: number
  power :: number
  consistency :: number
  balance :: number
  timing :: number

text \<open>\<^verbatim>\<open>Object.entries(rawScores)\<close>: the five properties in insertion order.\<close>

definition entries :: "raw_scores \<Rightarrow> (string \<times> number) list" where
  "entries r =
     [(''form'', form r), (''power'', power r), (''consistency'', consistency r),
      (''balance'', balance r), (''timing'', timing r)]"

text \<open>
  \<^verbatim>\<open>weights[k] || 0.2\<close>: the value read is the binary64 value of the literal; the default
  replaces a missing entry and also an entry that is \<open>0\<close>. The keys read are the five of
  \<open>entries\<close>, none of which \<^verbatim>\<open>Object.prototype\<close> defines.
\<close>

definition weight_or_default :: "weights \<Rightarrow> string \<Rightarrow> number" where
  "weight_or_default w k =
     (case map_of w k of
        None \<Rightarrow> fl (2/10)
      | Some x \<Rightarrow> if fl x = 0 then fl (2/10) else fl x)"

text \<open>
  The reduction of line 162: each step multiplies and adds in binary64, from the left,
  starting at \<open>0\<close>.
\<close>

definition weighted_sum :: "weights \<Rightarrow> raw_scores \<Rightarrow> number" where
  "weighted_sum w r =
     foldl (\<lambda>sum (k, v). fadd sum (fmul v (weight_or_default w k))) 0 (entries r)"

text \<open>
  \<^verbatim>\<open>Math.round\<close>: the integer nearest to the value itself, a tie going up; no rounding
  of an intermediate sum is involved.
\<close>

definition Math_round :: "number \<Rightarrow> int" where
  "Math_round x = \<lfloor>x + 1/2\<rfloor>"

text \<open>Lines 161 to 163, for a pattern that has a \<^verbatim>\<open>weights\<close> object.\<close>

definition compute_overall :: "weights \<Rightarrow> raw_scores \<Rightarrow> int" where
  "compute_overall w r = Math_round (weighted_sum w r)"

text \<open>\<^verbatim>\<open>Math.min(100, Math.max(0, overall))\<close> (line 178).\<close>

definition clamp_overall :: "int \<Rightarrow> int" where
  "clamp_overall n = min 100 (max 0 n)"

subsection \<open>Insights\<close>

record metrics =
  kneeAngle :: number
  hipAngle :: number
  armAngle :: number
  speedIndex :: number
  balanceMetric :: number

text \<open>The em dash of two of the messages, as its UTF-8 bytes.\<close>

definition emdash :: string where
  "emdash = [CHR 0xE2, CHR 0x80, CHR 0x94]"

definition msg_form_low :: string where
  "msg_form_low = ''Work on joint alignment '' @ emdash @
     '' your form score indicates suboptimal positioning during key phases.''"

definition msg_power_low :: string where
  "msg_power_low =
     ''Power output is below average for your sport. Add plyometric or resistance exercises.''"

definition msg_consistency_low :: string where
  "msg_consistency_low =
     ''Movement variability is high. Focus on drilling the same technique repeatedly.''"

definition msg_balance_low :: string where
  "msg_balance_low =
     ''Centre of mass shifts detected. Single-leg balance work can help stabilise your base.''"

definition msg_timing_low :: string where
  "msg_timing_low = ''Phase timing is off '' @ emdash @
     '' practice slow-motion drills to reinforce the correct sequence.''"

definition msg_knee_bend :: string where
  "msg_knee_bend =
     ''Knee bend is excessive at key moment. Check your stance width and foot placement.''"

definition msg_knee_straight :: string where
  "msg_knee_straight = ''Legs too straight '' @ emdash @
     '' increase knee flexion for better shock absorption.''"

definition msg_form_high :: "string \<Rightarrow> string" where
  "msg_form_high sportName =
     ''Excellent '' @ sportName @ '' form! Maintain this technique under fatigue.''"

definition msg_consistency_high :: string where
  "msg_consistency_high =
     ''Highly consistent movement patterns '' @ emdash @
     '' great for competition repeatability.''"

text \<open>\<^verbatim>\<open>if (c) insights.push(m)\<close>, the list passed along.\<close>

definition push_if :: "bool \<Rightarrow> string \<Rightarrow> string list \<Rightarrow> string list" where
  "push_if c m insights = (if c then insights @ [m] else insights)"

definition generateInsights :: "raw_scores \<Rightarrow> metrics \<Rightarrow> string \<Rightarrow> string list" where
  "generateInsights scores ms sportName =
     (let insights = [];
          insights = push_if (form scores < 65) msg_form_low insights;
          insights = push_if (power scores < 65) msg_power_low insights;
          insights = push_if (consistency scores < 65) msg_consistency_low insights;
          insights = push_if (balance scores < 65) msg_balance_low insights;
          insights = push_if (timing scores < 65) msg_timing_low insights;
          insights = push_if (kneeAngle ms < 80) msg_knee_bend insights;
          insights = push_if (kneeAngle ms > 160) msg_knee_straight insights;
          insights = push_if (form scores \<ge> 80) (msg_form_high sportName) insights;
          insights = push_if (consistency scores \<ge> 80) msg_consistency_high insights
      in take 5 insights)"

subsection \<open>analyzeVideo\<close>

record analysis_result =
  sport :: string
  sportKey :: string
  overall :: int
  scores :: raw_scores
  metrics :: metrics
  insights :: "string list"
  frameCount :: int

datatype js_error = TypeError | SqliteConstraint | SqliteIOError | SqliteMismatch

definition message :: "js_error \<Rightarrow> string" where
  "message e =
     (case e of
        TypeError \<Rightarrow> ''Cannot read properties of undefined (reading 'form')''
      | SqliteConstraint \<Rightarrow> ''UNIQUE constraint failed: sessions.id''
      | SqliteIOError \<Rightarrow> ''disk I/O error''
      | SqliteMismatch \<Rightarrow> ''datatype mismatch'')"

text \<open>
  \<^verbatim>\<open>base + Math.round(Math.random() * spread)\<close>, for the draw \<open>x\<close>, a binary64 value in
  \<open>[0, 1)\<close>.
\<close>

definition simulated :: "number \<Rightarrow> number \<Rightarrow> number \<Rightarrow> number" where
  "simulated base spread x = fadd base (of_int (Math_round (fmul x spread)))"

text \<open>
  \<^verbatim>\<open>x.toFixed(1)\<close>, as the number that the string denotes: the multiple of one tenth
  nearest to the value \<open>x\<close> itself, the larger one on a tie; the sign is set apart.
\<close>

definition toFixed1 :: "number \<Rightarrow> number" where
  "toFixed1 x =
     (if x < 0 then - (of_int \<lfloor>- x * 10 + 1/2\<rfloor> / 10) else of_int \<lfloor>x * 10 + 1/2\<rfloor> / 10)"

text \<open>
  Lines 153 to 159: the five simulated scores, from the first five draws.
\<close>

definition simulated_scores :: "(nat \<Rightarrow> number) \<Rightarrow> raw_scores" where
  "simulated_scores rnd =
     \<lparr>form = simulated 60 35 (rnd 0),
      power = simulated 55 40 (rnd 1),
      consistency = simulated 58 37 (rnd 2),
      balance = simulated 62 33 (rnd 3),
      timing = simulated 57 38 (rnd 4)\<rparr>"

text \<open>Lines 165 to 171. \<^verbatim>\<open>speedIndex\<close> is the number that \<^verbatim>\<open>toFixed(1)\<close> prints.\<close>

definition simulated_metrics :: "(nat \<Rightarrow> number) \<Rightarrow> metrics" where
  "simulated_metrics rnd =
     \<lparr>kneeAngle = simulated 75 30 (rnd 5),
      hipAngle = simulated 155 40 (rnd 6),
      armAngle = simulated 70 60 (rnd 7),
      speedIndex = toFixed1 (fadd (15/10) (fmul (rnd 8) (35/10))),
      balanceMetric = simulated 60 35 (rnd 9)\<rparr>"

text \<open>
  \<^verbatim>\<open>analyzeVideo\<close> (lines 148 to 184). When the lookup of line 149 lands on an inherited
  member of \<^verbatim>\<open>Object.prototype\<close>, \<^verbatim>\<open>weights\<close> is \<^verbatim>\<open>undefined\<close> and the first
  \<^verbatim>\<open>weights[k]\<close> inside the reduction of line 162 throws; nothing after it runs.
\<close>

definition analyzeVideo ::
  "string \<Rightarrow> string option \<Rightarrow> (nat \<Rightarrow> number) \<Rightarrow> js_error + analysis_result" where
  "analyzeVideo sport_key filePath rnd =
     (case resolve_pattern sport_key of
        Inherited k \<Rightarrow> Inl TypeError
      | Pattern pattern \<Rightarrow>
          (let rawScores = simulated_scores rnd;
               overall = compute_overall (weights pattern) rawScores;
               metrics = simulated_metrics rnd;
               insights = generateInsights rawScores metrics (name pattern)
           in Inr \<lparr>sport = name pattern,
                   sportKey = sport_key,
                   overall = clamp_overall overall,
                   scores = rawScores,
                   metrics = metrics,
                   insights = insights,
                   frameCount = 180 + Math_round (fmul (rnd 10) 120)\<rparr>))"

subsection \<open>The database\<close>

text \<open>
  The two tables as lists of rows in insertion order. \<^verbatim>\<open>created_at\<close> and \<^verbatim>\<open>updated_at\<close>
  hold what \<^verbatim>\<open>datetime('now')\<close> returned, a time to the second; the model keeps the
  number of seconds, whose order is the order of the stored text. The JSON columns keep
  the value that was serialised, so \<^verbatim>\<open>parseSession\<close> is the identity on a row.
  \<open>writable\<close> is false for a store that refuses every write (a full disk, a read-only or
  locked file).
\<close>

record athlete_row =
  a_id :: string
  a_name :: string
  a_age :: "int option"
  height_cm :: "number option"
  weight_kg :: "number option"
  a_sport :: "string option"
  a_level :: "string option"
  a_created_at :: nat
  a_updated_at :: nat

record session_row =
  s_id :: string
  athlete_id :: "string option"
  s_sport :: string
  s_overall :: int
  s_scores :: raw_scores
  s_metrics :: metrics
  s_insights :: "string list"
  file_path :: "string option"
  frame_count :: int
  created_at :: nat

record database =
  athletes :: "athlete_row list"
  sessions :: "session_row list"
  writable :: bool

text \<open>
  \<^verbatim>\<open>INSERT INTO sessions ...\<close> (lines 258 to 271): \<^verbatim>\<open>id\<close> is the primary key, and
  \<^verbatim>\<open>created_at\<close> takes its default.
\<close>

definition insert_session :: "database \<Rightarrow> session_row \<Rightarrow> js_error + database" where
  "insert_session d row =
     (if \<not> writable d then Inl SqliteIOError
      else if s_id row \<in> set (map s_id (sessions d)) then Inl SqliteConstraint
      else Inr (d\<lparr>sessions := sessions d @ [row]\<rparr>))"

text \<open>
  \<^verbatim>\<open>INSERT INTO athletes ... ON CONFLICT(id) DO UPDATE SET ...\<close> (lines 302 to 313). A
  new row takes \<^verbatim>\<open>created_at\<close> from its default; the update leaves that column alone.
\<close>

definition upsert_athlete ::
  "database \<Rightarrow> string \<Rightarrow> string \<Rightarrow> int option \<Rightarrow> number option \<Rightarrow> number option \<Rightarrow>
   string option \<Rightarrow> string option \<Rightarrow> nat \<Rightarrow> js_error + database" where
  "upsert_athlete d aid nm ag h w sp lv now =
     (if \<not> writable d then Inl SqliteIOError
      else if aid \<in> set (map a_id (athletes d))
      then Inr (d\<lparr>athletes :=
             map (\<lambda>r. if a_id r = aid
                       then r\<lparr>a_name := nm, a_age := ag, height_cm := h, weight_kg := w,
                              a_sport := sp, a_level := lv, a_updated_at := now\<rparr>
                       else r) (athletes d)\<rparr>)
      else Inr (d\<lparr>athletes := athletes d @
             [\<lparr>a_id = aid, a_name = nm, a_age = ag, height_cm = h, weight_kg = w,
               a_sport = sp, a_level = lv, a_created_at = now, a_updated_at = now\<rparr>]\<rparr>))"

text \<open>\<^verbatim>\<open>SELECT * FROM athletes WHERE id = ?\<close>.\<close>

definition select_athlete :: "database \<Rightarrow> string \<Rightarrow> athlete_row option" where
  "select_athlete d aid = find (\<lambda>r. a_id r = aid) (athletes d)"

text \<open>
  \<^verbatim>\<open>ORDER BY created_at DESC\<close>. SQL leaves the order of rows with equal keys open; the
  model keeps them in insertion order.
\<close>

definition order_by_created_at_desc :: "session_row list \<Rightarrow> session_row list" where
  "order_by_created_at_desc rows = sort_key (\<lambda>r. - int (created_at r)) rows"

text \<open>
  A number as a statement parameter. The driver binds every JavaScript number as a
  double; \<^verbatim>\<open>NaN\<close> is bound as \<^verbatim>\<open>NULL\<close>.
\<close>

datatype js_number = Finite number | NaN | Infinity | NegInfinity

text \<open>
  \<^verbatim>\<open>LIMIT ?\<close> needs an integer. SQLite converts a double that is a whole number
  strictly between \<open>- 2 ^ 63\<close> and \<open>2 ^ 63\<close>; for any other value the statement fails
  with \<^verbatim>\<open>SQLITE_MISMATCH\<close>, before it returns a row.
\<close>

definition must_be_int :: "js_number \<Rightarrow> js_error + int" where
  "must_be_int v =
     (case v of
        Finite x \<Rightarrow>
          if of_int \<lfloor>x\<rfloor> = x \<and> - (2 ^ 63) < x \<and> x < 2 ^ 63 then Inr \<lfloor>x\<rfloor>
          else Inl SqliteMismatch
      | NaN \<Rightarrow> Inl SqliteMismatch
      | Infinity \<Rightarrow> Inl SqliteMismatch
      | NegInfinity \<Rightarrow> Inl SqliteMismatch)"

text \<open>\<^verbatim>\<open>LIMIT ?\<close> for the bound value \<open>v\<close>: a negative integer is no limit.\<close>

definition sql_limit :: "js_number \<Rightarrow> 'a list \<Rightarrow> js_error + 'a list" where
  "sql_limit v rows =
     (case must_be_int v of
        Inl e \<Rightarrow> Inl e
      | Inr n \<Rightarrow> Inr (if n < 0 then rows else take (nat n) rows))"

definition select_sessions_by_athlete ::
  "database \<Rightarrow> string \<Rightarrow> js_number \<Rightarrow> js_error + session_row list" where
  "select_sessions_by_athlete d aid v =
     sql_limit v (order_by_created_at_desc
       (filter (\<lambda>r. athlete_id r = Some aid) (sessions d)))"

definition select_sessions :: "database \<Rightarrow> js_number \<Rightarrow> js_error + session_row list" where
  "select_sessions d v = sql_limit v (order_by_created_at_desc (sessions d))"

subsection \<open>The route handlers\<close>

datatype body =
    AnalysisBody string analysis_result
  | ProfileSaved string
  | SessionList "session_row list"
  | ErrorBody string

record response =
  status :: nat
  body :: body

definition truthy :: "string option \<Rightarrow> bool" where
  "truthy v = (case v of None \<Rightarrow> False | Some s \<Rightarrow> s \<noteq> [])"

text \<open>\<^verbatim>\<open>v || null\<close>, for a string and for a number.\<close>

definition or_null :: "string option \<Rightarrow> string option" where
  "or_null v = (if truthy v then v else None)"

definition or_null_num :: "('a::zero) option \<Rightarrow> 'a option" where
  "or_null_num v = (case v of None \<Rightarrow> None | Some n \<Rightarrow> if n = 0 then None else Some n)"

record analyze_request =
  body_sport :: "string option"
  file_upload :: "string option"
  body_filePath :: "string option"
  body_athleteId :: "string option"

text \<open>
  Line 248: \<^verbatim>\<open>req.body.sport && SPORT_PATTERNS[req.body.sport] ? req.body.sport : 'running'\<close>.
  Whatever the property read returns, unless it is \<^verbatim>\<open>undefined\<close>, is truthy.
\<close>

definition request_sportKey :: "analyze_request \<Rightarrow> string" where
  "request_sportKey req =
     (case body_sport req of
        None \<Rightarrow> ''running''
      | Some s \<Rightarrow> if s \<noteq> [] \<and> get_pattern s \<noteq> None then s else ''running'')"

text \<open>Line 249: \<^verbatim>\<open>req.file ? req.file.path : req.body.filePath || null\<close>.\<close>

definition request_filePath :: "analyze_request \<Rightarrow> string option" where
  "request_filePath req =
     (case file_upload req of Some p \<Rightarrow> Some p | None \<Rightarrow> or_null (body_filePath req))"

definition session_of ::
  "string \<Rightarrow> string option \<Rightarrow> analysis_result \<Rightarrow> string option \<Rightarrow> nat \<Rightarrow> session_row" where
  "session_of sessionId athleteId result filePath now =
     \<lparr>s_id = sessionId, athlete_id = athleteId, s_sport = sport result,
      s_overall = overall result, s_scores = scores result, s_metrics = metrics result,
      s_insights = insights result, file_path = filePath,
      frame_count = frameCount result, created_at = now\<rparr>"

text \<open>
  \<^verbatim>\<open>POST /api/analyze\<close> (lines 247 to 278), after the upload middleware. The handler
  returns the response, the database and the lines written to the console. An exception
  that leaves the handler reaches the error handler of lines 331 to 337.
\<close>

definition post_analyze ::
  "database option \<Rightarrow> analyze_request \<Rightarrow> string \<Rightarrow> nat \<Rightarrow> (nat \<Rightarrow> number) \<Rightarrow>
   response \<times> database option \<times> string list" where
  "post_analyze db req uuid now rnd =
     (let sportKey = request_sportKey req;
          filePath = request_filePath req;
          athleteId = or_null (body_athleteId req)
      in case analyzeVideo sportKey filePath rnd of
           Inl e \<Rightarrow>
             (\<lparr>status = 500, body = ErrorBody (message e)\<rparr>, db,
              [''Unhandled error: '' @ message e])
         | Inr result \<Rightarrow>
             (let sessionId = uuid;
                  ok = \<lparr>status = 200, body = AnalysisBody sessionId result\<rparr>
              in case db of
                   None \<Rightarrow> (ok, None, [])
                 | Some d \<Rightarrow>
                     (case insert_session d (session_of sessionId athleteId result filePath now) of
                        Inl e \<Rightarrow> (ok, Some d, [''DB insert failed: '' @ message e])
                      | Inr d' \<Rightarrow> (ok, Some d', []))))"

definition db_unavailable :: response where
  "db_unavailable = \<lparr>status = 503, body = ErrorBody
     ''Database unavailable. Install better-sqlite3: npm install better-sqlite3''\<rparr>"

text \<open>
  \<^verbatim>\<open>GET /api/sessions\<close> (lines 288 to 294). \<open>limit\<close> is the number that \<^verbatim>\<open>+limit\<close> yields
  for the query parameter, \<open>None\<close> when the query has none. An exception of the statement
  reaches the error handler of lines 331 to 337; its console line is left out.
\<close>

definition effective_limit :: "js_number option \<Rightarrow> js_number" where
  "effective_limit limit = (case limit of None \<Rightarrow> Finite 20 | Some v \<Rightarrow> v)"

definition get_sessions ::
  "database option \<Rightarrow> string option \<Rightarrow> js_number option \<Rightarrow> response" where
  "get_sessions db athleteId limit =
     (case db of
        None \<Rightarrow> db_unavailable
      | Some d \<Rightarrow>
          (let v = effective_limit limit;
               rows = (case athleteId of
                         None \<Rightarrow> select_sessions d v
                       | Some a \<Rightarrow> if a \<noteq> [] then select_sessions_by_athlete d a v
                                  else select_sessions d v)
           in case rows of
                Inl e \<Rightarrow> \<lparr>status = 500, body = ErrorBody (message e)\<rparr>
              | Inr rs \<Rightarrow> \<lparr>status = 200, body = SessionList rs\<rparr>))"

record profile_request =
  body_name :: "string option"
  body_age :: "int option"
  body_height :: "number option"
  body_weight :: "number option"
  body_profile_sport :: "string option"
  body_level :: "string option"
  body_id :: "string option"

text \<open>Line 301: \<^verbatim>\<open>id || uuidv4()\<close>.\<close>

definition request_athleteId :: "profile_request \<Rightarrow> string \<Rightarrow> string" where
  "request_athleteId req uuid =
     (case body_id req of None \<Rightarrow> uuid | Some i \<Rightarrow> if i \<noteq> [] then i else uuid)"

text \<open>
  \<^verbatim>\<open>POST /api/profile\<close> (lines 297 to 316). An exception of the write reaches the
  error handler of lines 331 to 337.
\<close>

definition post_profile ::
  "database option \<Rightarrow> profile_request \<Rightarrow> string \<Rightarrow> nat \<Rightarrow> response \<times> database option" where
  "post_profile db req uuid now =
     (case db of
        None \<Rightarrow> (db_unavailable, None)
      | Some d \<Rightarrow>
          (case body_name req of
             None \<Rightarrow> (\<lparr>status = 400, body = ErrorBody ''name is required.''\<rparr>, Some d)
           | Some nm \<Rightarrow>
               if nm = [] then (\<lparr>status = 400, body = ErrorBody ''name is required.''\<rparr>, Some d)
               else
                 (let athleteId = request_athleteId req uuid
                  in case upsert_athlete d athleteId nm (or_null_num (body_age req))
                            (or_null_num (body_height req)) (or_null_num (body_weight req))
                            (or_null (body_profile_sport req)) (or_null (body_level req)) now of
                       Inl e \<Rightarrow> (\<lparr>status = 500, body = ErrorBody (message e)\<rparr>, Some d)
                     | Inr d' \<Rightarrow> (\<lparr>status = 200, body = ProfileSaved athleteId\<rparr>, Some d'))))"

text \<open>\<^verbatim>\<open>GET /api/profile/:id\<close> (lines 319 to 323), the row it finds.\<close>

definition get_profile :: "database option \<Rightarrow> string \<Rightarrow> athlete_row option" where
  "get_profile db aid = (case db of None \<Rightarrow> None | Some d \<Rightarrow> select_athlete d aid)"

subsection \<open>The specification's formulas\<close>

text \<open>
  The definitions of this subsection follow the words of the specification, not the
  code; the theorems below compare the two.

  The rule table of the insight generator: nine conditions, each with its message, in
  the order of the table.
\<close>

definition spec_rules :: "raw_scores \<Rightarrow> metrics \<Rightarrow> string \<Rightarrow> (bool \<times> string) list" where
  "spec_rules s m n =
     [(form s < 65, msg_form_low),
      (power s < 65, msg_power_low),
      (consistency s < 65, msg_consistency_low),
      (balance s < 65, msg_balance_low),
      (timing s < 65, msg_timing_low),
      (kneeAngle m < 80, msg_knee_bend),
      (kneeAngle m > 160, msg_knee_straight),
      (form s \<ge> 80, msg_form_high n),
      (consistency s \<ge> 80, msg_consistency_high)]"

text \<open>The messages of the rules whose condition holds, in the order of the rules.\<close>

definition fired :: "(bool \<times> string) list \<Rightarrow> string list" where
  "fired rules = map snd (filter fst rules)"

text \<open>What one rule adds to the list.\<close>

definition emit :: "bool \<Rightarrow> string \<Rightarrow> string list" where
  "emit c m = (if c then [m] else [])"

text \<open>
  The weight of a dimension, \<open>0.2\<close> when the vector has no entry for it, and the overall
  score: the weighted sum over the five dimensions, rounded, then clamped. The sum is
  taken in binary64, in the order of the dimensions.
\<close>

definition spec_weight :: "weights \<Rightarrow> string \<Rightarrow> number" where
  "spec_weight w d = (case map_of w d of None \<Rightarrow> fl (2/10) | Some x \<Rightarrow> fl x)"

definition spec_overall :: "weights \<Rightarrow> raw_scores \<Rightarrow> int" where
  "spec_overall w r =
     min 100 (max 0 (round
       (fadd (fadd (fadd (fadd (fadd 0
          (fmul (form r) (spec_weight w ''form'')))
          (fmul (power r) (spec_weight w ''power'')))
          (fmul (consistency r) (spec_weight w ''consistency'')))
          (fmul (balance r) (spec_weight w ''balance'')))
          (fmul (timing r) (spec_weight w ''timing'')))))"

text \<open>
  The sessions that a list request ranges over: those of the athlete when the request
  names one, all of them otherwise.
\<close>

definition queried_sessions :: "database \<Rightarrow> string option \<Rightarrow> session_row list" where
  "queried_sessions d athleteId =
     (case athleteId of
        None \<Rightarrow> sessions d
      | Some a \<Rightarrow> if a \<noteq> [] then filter (\<lambda>r. athlete_id r = Some a) (sessions d)
                 else sessions d)"

subsection \<open>Sample data\<close>

text \<open>
  Concrete inputs for the examples below. \<open>sample_result\<close> is what \<^verbatim>\<open>analyzeVideo\<close> returns
  for yoga when every draw is \<open>1/2\<close>.
\<close>

definition sample_scores :: raw_scores where
  "sample_scores = \<lparr>form = 70, power = 70, consistency = 70, balance = 70, timing = 70\<rparr>"

definition low_scores :: raw_scores where
  "low_scores = \<lparr>form = 60, power = 60, consistency = 60, balance = 62, timing = 60\<rparr>"

definition sample_metrics :: "number \<Rightarrow> metrics" where
  "sample_metrics knee =
     \<lparr>kneeAngle = knee, hipAngle = 170, armAngle = 90, speedIndex = 3, balanceMetric = 70\<rparr>"

definition sample_result :: analysis_result where
  "sample_result =
     \<lparr>sport = ''Yoga'', sportKey = ''yoga'', overall = 78,
      scores = \<lparr>form = 78, power = 75, consistency = 77, balance = 79, timing = 76\<rparr>,
      metrics = \<lparr>kneeAngle = 90, hipAngle = 175, armAngle = 100, speedIndex = 33/10,
                 balanceMetric = 78\<rparr>,
      insights = [], frameCount = 240\<rparr>"

definition sample_request :: "string \<Rightarrow> analyze_request" where
  "sample_request s =
     \<lparr>body_sport = Some s, file_upload = None, body_filePath = None,
      body_athleteId = Some ''a1''\<rparr>"

definition sample_session :: "string \<Rightarrow> string option \<Rightarrow> nat \<Rightarrow> session_row" where
  "sample_session i a t = session_of i a sample_result None t"

definition empty_db :: database where
  "empty_db = \<lparr>athletes = [], sessions = [], writable = True\<rparr>"

definition failing_db :: database where
  "failing_db = \<lparr>athletes = [], sessions = [], writable = False\<rparr>"

text \<open>Two sessions of one athlete, stored within the same second.\<close>

definition tie_db :: database where
  "tie_db =
     \<lparr>athletes = [],
      sessions = [sample_session ''s1'' (Some ''a1'') 100, sample_session ''s2'' (Some ''a1'') 100],
      writable = True\<rparr>"

definition three_db :: database where
  "three_db =
     \<lparr>athletes = [],
      sessions = [sample_session ''s1'' (Some ''a1'') 100, sample_session ''s2'' (Some ''a2'') 200,
                  sample_session ''s3'' (Some ''a1'') 300],
      writable = True\<rparr>"

definition sample_profile :: "int option \<Rightarrow> profile_request" where
  "sample_profile age =
     \<lparr>body_name = Some ''Alex Johnson'', body_age = age, body_height = Some 178,
      body_weight = Some 74, body_profile_sport = Some ''sprinting'', body_level = None,
      body_id = Some ''a1''\<rparr>"

text \<open>The database after two profile requests, at the times \<open>100\<close> and \<open>200\<close>.\<close>

definition after_two_upserts :: "profile_request \<Rightarrow> profile_request \<Rightarrow> database option" where
  "after_two_upserts r1 r2 =
     snd (post_profile (snd (post_profile (Some empty_db) r1 ''u1'' 100)) r2 ''u2'' 200)"

section \<open>Properties\<close>

subsection \<open>Evaluating \<open>Math_round\<close> on numerals\<close>

lemma floor_rat_numeral_div [simp]:
  "\<lfloor>numeral a / numeral b :: rat\<rfloor> = numeral a div numeral b"
  using floor_divide_of_int_eq [where ?'a = rat, of "numeral a" "numeral b"] by simp

lemma floor_rat_neg_numeral_div [simp]:
  "\<lfloor>- (numeral a / numeral b) :: rat\<rfloor> = - numeral a div numeral b"
  using floor_divide_of_int_eq [where ?'a = rat, of "- numeral a" "numeral b"] by simp

lemma analyzeVideo_yoga: "analyzeVideo ''yoga'' None (\<lambda>_. 1/2) = Inr sample_result"
  by code_simp

subsection \<open>The registry and the lookup\<close>

text \<open>
  C5. The registry has twelve entries; each gives a weight to the five dimensions, no
  weight is negative, and the five weights of an entry add up to \<open>1\<close> (exactly, for the
  decimal values written in the source, hence within every tolerance).
\<close>

theorem registry_weights_sum_to_one:
  "length SPORT_PATTERNS = 12 \<and>
   (\<forall>(k, p) \<in> set SPORT_PATTERNS.
       map fst (weights p) = [''form'', ''power'', ''consistency'', ''balance'', ''timing'']
     \<and> (\<forall>x \<in> set (map snd (weights p)). 0 \<le> x)
     \<and> sum_list (map snd (weights p)) = 1)"
  by (simp add: SPORT_PATTERNS_def mk_weights_def)

theorem registry_weights_sum_to_one_witness:
  "(''running'', running_pattern) \<in> set SPORT_PATTERNS
   \<and> sum_list (map snd (weights running_pattern)) = 1"
proof -
  have m: "(''running'', running_pattern) \<in> set SPORT_PATTERNS"
    by (simp add: SPORT_PATTERNS_def running_pattern_def)
  with registry_weights_sum_to_one show ?thesis
    by blast
qed

text \<open>No weight of the registry is read as \<open>0\<close>.\<close>

lemma registry_weights_nonzero_all:
  "list_all (\<lambda>(k, p). list_all (\<lambda>x. fl x \<noteq> 0) (map snd (weights p))) SPORT_PATTERNS"
  by code_simp

lemma registry_weights_nonzero:
  "(k, p) \<in> set SPORT_PATTERNS \<Longrightarrow> \<forall>x \<in> set (map snd (weights p)). fl x \<noteq> 0"
  using registry_weights_nonzero_all by (auto simp add: list_all_iff)

lemma running_weights_nonzero:
  "\<forall>x \<in> set (map snd (weights running_pattern)). fl x \<noteq> 0"
  using registry_weights_nonzero [of "''running''" running_pattern]
  by (simp add: SPORT_PATTERNS_def running_pattern_def)

lemma running_is_registered: "map_of SPORT_PATTERNS ''running'' = Some running_pattern"
  by (simp add: SPORT_PATTERNS_def running_pattern_def)

lemma prototype_keys_not_registered:
  "\<forall>k \<in> set Object_prototype_keys. map_of SPORT_PATTERNS k = None"
  by (simp add: Object_prototype_keys_def SPORT_PATTERNS_def)

lemma prototype_key_not_registered:
  "k \<in> set Object_prototype_keys \<Longrightarrow> map_of SPORT_PATTERNS k = None"
  using prototype_keys_not_registered by blast

lemma resolve_pattern_inherited:
  "k \<in> set Object_prototype_keys \<Longrightarrow> resolve_pattern k = Inherited k"
  by (simp add: resolve_pattern_def get_pattern_def prototype_key_not_registered)

lemma resolve_pattern_own:
  "k \<notin> set Object_prototype_keys \<Longrightarrow>
   resolve_pattern k =
     Pattern (case map_of SPORT_PATTERNS k of Some p \<Rightarrow> p | None \<Rightarrow> running_pattern)"
  by (simp add: resolve_pattern_def get_pattern_def split: option.splits)

lemma resolved_weights_nonzero:
  assumes "resolve_pattern k = Pattern p"
  shows "\<forall>x \<in> set (map snd (weights p)). fl x \<noteq> 0"
proof (cases "map_of SPORT_PATTERNS k")
  case None
  with assms have "p = running_pattern"
    by (simp add: resolve_pattern_def get_pattern_def split: if_splits)
  then show ?thesis using running_weights_nonzero by simp
next
  case (Some q)
  with assms have "p = q" by (simp add: resolve_pattern_def get_pattern_def)
  with Some have "(k, p) \<in> set SPORT_PATTERNS" by (simp add: map_of_SomeD)
  then show ?thesis by (rule registry_weights_nonzero)
qed

text \<open>
  A key that the registry does not have and that \<^verbatim>\<open>Object.prototype\<close> does not define
  falls back to the running pattern, in the route and in \<^verbatim>\<open>analyzeVideo\<close>.
\<close>

lemma unknown_sport_defaults:
  assumes "map_of SPORT_PATTERNS k = None" and "k \<notin> set Object_prototype_keys"
  shows "request_sportKey (req\<lparr>body_sport := Some k\<rparr>) = ''running''"
    and "resolve_pattern k = Pattern running_pattern"
    and "resolve_pattern ''running'' = Pattern running_pattern"
  using assms
  by (simp_all add: request_sportKey_def resolve_pattern_def get_pattern_def
      running_is_registered)

subsection \<open>The overall score\<close>

lemma weighted_sum_unfold:
  "weighted_sum w r =
     fadd (fadd (fadd (fadd (fadd 0
       (fmul (form r) (weight_or_default w ''form'')))
       (fmul (power r) (weight_or_default w ''power'')))
       (fmul (consistency r) (weight_or_default w ''consistency'')))
       (fmul (balance r) (weight_or_default w ''balance'')))
       (fmul (timing r) (weight_or_default w ''timing''))"
  by (simp add: weighted_sum_def entries_def)

lemma weight_or_default_spec:
  assumes "\<forall>x \<in> set (map snd w). fl x \<noteq> 0"
  shows "weight_or_default w d = spec_weight w d"
proof (cases "map_of w d")
  case None
  then show ?thesis by (simp add: weight_or_default_def spec_weight_def)
next
  case (Some x)
  then have "(d, x) \<in> set w" by (rule map_of_SomeD)
  then have "fl x \<noteq> 0" using assms by force
  with Some show ?thesis by (simp add: weight_or_default_def spec_weight_def)
qed

text \<open>
  For a weight vector without an entry that reads as \<open>0\<close>, the code computes the formula
  of the specification in binary64, whatever the scores.
\<close>

lemma overall_spec:
  assumes "\<forall>x \<in> set (map snd w). fl x \<noteq> 0"
  shows "clamp_overall (compute_overall w r) = spec_overall w r"
  by (simp add: clamp_overall_def compute_overall_def spec_overall_def Math_round_def
      round_def weighted_sum_unfold weight_or_default_spec [OF assms])

text \<open>
  The sum is the binary64 one: for the running pattern and the scores 60, 55, 58, 68,
  59 it is just below \<open>59.5\<close>, and the overall score is \<open>59\<close>, where the five exact products
  add up to \<open>59.5\<close>. A draw just below \<open>0.5 / 35\<close> has the product \<open>0.5\<close> in binary64 and
  gives the form score \<open>61\<close>.
\<close>

lemma compute_overall_running:
  "compute_overall (weights running_pattern)
     \<lparr>form = 60, power = 55, consistency = 58, balance = 68, timing = 59\<rparr> = 59"
  by code_simp

lemma simulated_form_tie: "simulated 60 35 (8235153604334621 / 2 ^ 59) = 61"
  by code_simp

text \<open>
  Likewise a draw for which \<open>1.5 + x * 3.5\<close> is \<open>1.65\<close> or more as an exact sum, and just
  below it in binary64, prints as \<^verbatim>\<open>1.6\<close>.
\<close>

lemma speedIndex_tie:
  "toFixed1 (fadd (15/10) (fmul (3088182601625483 / 2 ^ 56) (35/10))) = 16/10
   \<and> 165/100 \<le> 15/10 + (3088182601625483 / 2 ^ 56) * (35/10 :: rat)"
  by code_simp

lemma analyzeVideo_overall:
  "analyzeVideo k fp rnd = Inr res \<Longrightarrow>
   \<exists>p. resolve_pattern k = Pattern p \<and>
       overall res = clamp_overall (compute_overall (weights p) (simulated_scores rnd))"
  by (auto simp add: analyzeVideo_def Let_def split: js_value.splits)

text \<open>
  For every key that is not the name of a member of \<^verbatim>\<open>Object.prototype\<close>,
  \<^verbatim>\<open>analyzeVideo\<close> returns, and its overall score is the formula of the specification on
  the weights of the resolved pattern.
\<close>

lemma analyzeVideo_overall_formula:
  assumes "k \<notin> set Object_prototype_keys"
  shows "\<exists>res p. analyzeVideo k fp rnd = Inr res \<and> resolve_pattern k = Pattern p \<and>
           overall res = spec_overall (weights p) (simulated_scores rnd)"
proof -
  obtain p where p: "resolve_pattern k = Pattern p"
    using resolve_pattern_own [OF assms] by blast
  have "clamp_overall (compute_overall (weights p) (simulated_scores rnd)) =
      spec_overall (weights p) (simulated_scores rnd)"
    by (rule overall_spec [OF resolved_weights_nonzero [OF p]])
  with p show ?thesis by (simp add: analyzeVideo_def Let_def)
qed

text \<open>
  C1. The claim is that for every sport key the overall score is the rounded, clamped
  weighted sum, a missing weight counting \<open>0.2\<close>. For the key \<^verbatim>\<open>constructor\<close> the lookup
  of line 149 returns the inherited \<^verbatim>\<open>Object\<close> function, which is truthy and has no
  \<^verbatim>\<open>weights\<close>: the reduction of line 162 throws and no score is computed.
\<close>

theorem analyzeVideo_constructor_throws:
  "analyzeVideo ''constructor'' fp rnd = Inl TypeError"
  by (simp add: analyzeVideo_def resolve_pattern_inherited Object_prototype_keys_def)

text \<open>
  C3. Whatever the weight vector and the scores, the overall score that the scoring
  path produces is an integer from \<open>0\<close> to \<open>100\<close>; so is the \<^verbatim>\<open>overall\<close> of every result
  of \<^verbatim>\<open>analyzeVideo\<close>.
\<close>

theorem overall_in_range:
  "0 \<le> clamp_overall (compute_overall w r) \<and> clamp_overall (compute_overall w r) \<le> 100
   \<and> (\<forall>res. analyzeVideo k fp rnd = Inr res \<longrightarrow> 0 \<le> overall res \<and> overall res \<le> 100)"
proof -
  have range: "0 \<le> clamp_overall n \<and> clamp_overall n \<le> 100" for n
    by (simp add: clamp_overall_def)
  show ?thesis
    using range analyzeVideo_overall [of k fp rnd] by metis
qed

theorem overall_in_range_witness:
  "analyzeVideo ''yoga'' None (\<lambda>_. 1/2) = Inr sample_result
   \<and> 0 \<le> overall sample_result \<and> overall sample_result \<le> 100"
  using overall_in_range [of _ _ "''yoga''" None "\<lambda>_. 1/2"] analyzeVideo_yoga
  by blast

subsection \<open>The insight generator as a rule table\<close>

lemma push_if_emit: "push_if c m xs = xs @ emit c m"
  by (simp add: push_if_def emit_def)

lemma fired_Nil: "fired [] = []"
  by (simp add: fired_def)

lemma fired_Cons: "fired ((c, m) # rs) = emit c m @ fired rs"
  by (simp add: fired_def emit_def)

lemma fired_none: "\<forall>r \<in> set rs. \<not> fst r \<Longrightarrow> fired rs = []"
  by (simp add: fired_def filter_empty_conv)

lemma mem_emit: "x \<in> set (emit c m) \<longleftrightarrow> c \<and> x = m"
  by (auto simp add: emit_def)

lemma generateInsights_fired:
  "generateInsights s m n = take 5 (fired (spec_rules s m n))"
  by (simp add: generateInsights_def spec_rules_def push_if_emit fired_Cons fired_Nil)

lemma mem_insights_fired:
  "x \<in> set (generateInsights s m n) \<Longrightarrow> x \<in> set (fired (spec_rules s m n))"
  unfolding generateInsights_fired by (rule in_set_takeD)

lemma mem_fired_rules:
  "x \<in> set (fired (spec_rules s m n)) \<longleftrightarrow>
     (form s < 65 \<and> x = msg_form_low) \<or> (power s < 65 \<and> x = msg_power_low) \<or>
     (consistency s < 65 \<and> x = msg_consistency_low) \<or>
     (balance s < 65 \<and> x = msg_balance_low) \<or>
     (timing s < 65 \<and> x = msg_timing_low) \<or> (kneeAngle m < 80 \<and> x = msg_knee_bend) \<or>
     (kneeAngle m > 160 \<and> x = msg_knee_straight) \<or> (form s \<ge> 80 \<and> x = msg_form_high n) \<or>
     (consistency s \<ge> 80 \<and> x = msg_consistency_high)"
  by (simp add: spec_rules_def fired_Cons fired_Nil mem_emit)

lemmas msg_defs = msg_form_low_def msg_power_low_def msg_consistency_low_def
  msg_balance_low_def msg_timing_low_def msg_knee_bend_def msg_knee_straight_def
  msg_form_high_def msg_consistency_high_def

text \<open>Each message that a claim names differs from the eight others in its first letter.\<close>

lemma form_low_distinct:
  "msg_form_low \<noteq> msg_power_low" "msg_form_low \<noteq> msg_consistency_low"
  "msg_form_low \<noteq> msg_balance_low" "msg_form_low \<noteq> msg_timing_low"
  "msg_form_low \<noteq> msg_knee_bend" "msg_form_low \<noteq> msg_knee_straight"
  "msg_form_low \<noteq> msg_form_high n" "msg_form_low \<noteq> msg_consistency_high"
  by (simp_all add: msg_defs)

lemma form_high_distinct:
  "msg_form_high n \<noteq> msg_form_low" "msg_form_high n \<noteq> msg_power_low"
  "msg_form_high n \<noteq> msg_consistency_low" "msg_form_high n \<noteq> msg_balance_low"
  "msg_form_high n \<noteq> msg_timing_low" "msg_form_high n \<noteq> msg_knee_bend"
  "msg_form_high n \<noteq> msg_knee_straight" "msg_form_high n \<noteq> msg_consistency_high"
  by (simp_all add: msg_defs)

lemma consistency_low_distinct:
  "msg_consistency_low \<noteq> msg_form_low" "msg_consistency_low \<noteq> msg_power_low"
  "msg_consistency_low \<noteq> msg_balance_low" "msg_consistency_low \<noteq> msg_timing_low"
  "msg_consistency_low \<noteq> msg_knee_bend" "msg_consistency_low \<noteq> msg_knee_straight"
  "msg_consistency_low \<noteq> msg_form_high n" "msg_consistency_low \<noteq> msg_consistency_high"
  by (simp_all add: msg_defs)

lemma consistency_high_distinct:
  "msg_consistency_high \<noteq> msg_form_low" "msg_consistency_high \<noteq> msg_power_low"
  "msg_consistency_high \<noteq> msg_consistency_low" "msg_consistency_high \<noteq> msg_balance_low"
  "msg_consistency_high \<noteq> msg_timing_low" "msg_consistency_high \<noteq> msg_knee_bend"
  "msg_consistency_high \<noteq> msg_knee_straight" "msg_consistency_high \<noteq> msg_form_high n"
  by (simp_all add: msg_defs)

lemma knee_bend_distinct:
  "msg_knee_bend \<noteq> msg_form_low" "msg_knee_bend \<noteq> msg_power_low"
  "msg_knee_bend \<noteq> msg_consistency_low" "msg_knee_bend \<noteq> msg_balance_low"
  "msg_knee_bend \<noteq> msg_timing_low" "msg_knee_bend \<noteq> msg_knee_straight"
  "msg_knee_bend \<noteq> msg_form_high n" "msg_knee_bend \<noteq> msg_consistency_high"
  by (simp_all add: msg_defs)

lemma form_low_fired:
  "msg_form_low \<in> set (fired (spec_rules s m n)) \<longleftrightarrow> form s < 65"
  by (simp add: mem_fired_rules form_low_distinct)

lemma form_high_fired:
  "msg_form_high n \<in> set (fired (spec_rules s m n)) \<longleftrightarrow> form s \<ge> 80"
  by (simp add: mem_fired_rules form_high_distinct)

lemma consistency_low_fired:
  "msg_consistency_low \<in> set (fired (spec_rules s m n)) \<longleftrightarrow> consistency s < 65"
  by (simp add: mem_fired_rules consistency_low_distinct)

lemma consistency_high_fired:
  "msg_consistency_high \<in> set (fired (spec_rules s m n)) \<longleftrightarrow> consistency s \<ge> 80"
  by (simp add: mem_fired_rules consistency_high_distinct)

text \<open>
  C2. \<^verbatim>\<open>generateInsights\<close> returns the first five messages of the nine rules of the
  table that fire, taken in the order of the table; so the list never has more than five
  messages, and it is empty when no rule fires.
\<close>

theorem generateInsights_rule_table:
  "generateInsights s m n = take 5 (fired (spec_rules s m n))
   \<and> length (spec_rules s m n) = 9
   \<and> length (generateInsights s m n) \<le> 5
   \<and> ((\<forall>r \<in> set (spec_rules s m n). \<not> fst r) \<longrightarrow> generateInsights s m n = [])"
  by (simp add: generateInsights_fired fired_none) (simp add: spec_rules_def)

theorem generateInsights_rule_table_witness:
  "generateInsights sample_scores (sample_metrics 100) ''Yoga'' = []"
proof -
  have "\<forall>r \<in> set (spec_rules sample_scores (sample_metrics 100) ''Yoga''). \<not> fst r"
    by (simp add: spec_rules_def sample_scores_def sample_metrics_def)
  with generateInsights_rule_table [of sample_scores "sample_metrics 100" "''Yoga''"]
  show ?thesis by blast
qed

text \<open>
  C4, as amended. With a knee angle of \<open>70\<close>, the list holds the warning about the knee
  bend exactly when at most four of the five score rules fire: the warning is the sixth
  message when all five do, and the list is cut after the fifth.
\<close>

theorem knee_bend_warning_unless_truncated:
  assumes "kneeAngle m = 70"
  shows "msg_knee_bend \<in> set (generateInsights s m n) \<longleftrightarrow>
    \<not> (form s < 65 \<and> power s < 65 \<and> consistency s < 65 \<and> balance s < 65 \<and> timing s < 65)"
  using assms
  by (cases "form s < 65"; cases "power s < 65"; cases "consistency s < 65";
      cases "balance s < 65"; cases "timing s < 65")
     (simp_all add: generateInsights_def push_if_def knee_bend_distinct Let_def)

theorem knee_bend_warning_counterexample:
  "kneeAngle (sample_metrics 70) = 70
   \<and> msg_knee_bend \<notin> set (generateInsights low_scores (sample_metrics 70) ''Yoga'')"
  by (simp add: generateInsights_def push_if_def knee_bend_distinct low_scores_def
      sample_metrics_def)

theorem knee_bend_warning_witness:
  "kneeAngle (sample_metrics 70) = 70
   \<and> msg_knee_bend \<in> set (generateInsights sample_scores (sample_metrics 70) ''Yoga'')"
proof -
  have k: "kneeAngle (sample_metrics 70) = 70"
    by (simp add: sample_metrics_def)
  from knee_bend_warning_unless_truncated [OF k, of sample_scores "''Yoga''"] k
  show ?thesis by (simp add: sample_scores_def)
qed

text \<open>
  C10. The list never holds both the cue of a low score and the praise of a high score
  for the same dimension: not the joint-alignment cue together with the praise of the
  form, and not the repetition cue together with the praise of the consistency.
\<close>

theorem low_and_high_cues_exclusive:
  "\<not> (msg_form_low \<in> set (generateInsights s m n) \<and>
       msg_form_high n \<in> set (generateInsights s m n))
   \<and> \<not> (msg_consistency_low \<in> set (generateInsights s m n) \<and>
       msg_consistency_high \<in> set (generateInsights s m n))"
proof (intro conjI notI)
  assume a: "msg_form_low \<in> set (generateInsights s m n) \<and>
    msg_form_high n \<in> set (generateInsights s m n)"
  have "form s < 65"
    using a mem_insights_fired form_low_fired by blast
  moreover have "form s \<ge> 80"
    using a mem_insights_fired form_high_fired by blast
  ultimately show False by simp
next
  assume a: "msg_consistency_low \<in> set (generateInsights s m n) \<and>
    msg_consistency_high \<in> set (generateInsights s m n)"
  have "consistency s < 65"
    using a mem_insights_fired consistency_low_fired by blast
  moreover have "consistency s \<ge> 80"
    using a mem_insights_fired consistency_high_fired by blast
  ultimately show False by simp
qed

subsection \<open>The analysis route\<close>

lemma request_sportKey_constructor:
  "body_sport req = Some ''constructor'' \<Longrightarrow> request_sportKey req = ''constructor''"
  by (simp add: request_sportKey_def get_pattern_def Object_prototype_keys_def
      split: option.splits)

lemma post_analyze_response:
  assumes "analyzeVideo (request_sportKey req) (request_filePath req) rnd = Inr result"
  shows "fst (post_analyze db req uuid now rnd) =
           \<lparr>status = 200, body = AnalysisBody uuid result\<rparr>"
  using assms by (simp add: post_analyze_def Let_def split: option.splits sum.splits)

text \<open>
  A sport that is neither registered nor the name of a member of \<^verbatim>\<open>Object.prototype\<close>
  is answered with the analysis of the running pattern.
\<close>

lemma post_analyze_unknown_sport:
  assumes "map_of SPORT_PATTERNS k = None" and "k \<notin> set Object_prototype_keys"
  shows "\<exists>result. fst (post_analyze db (req\<lparr>body_sport := Some k\<rparr>) uuid now rnd) =
             \<lparr>status = 200, body = AnalysisBody uuid result\<rparr>
           \<and> sport result = ''Distance Running'' \<and> sportKey result = ''running''"
proof -
  let ?req = "req\<lparr>body_sport := Some k\<rparr>"
  have key: "request_sportKey ?req = ''running''"
    by (rule unknown_sport_defaults(1) [OF assms])
  have pat: "resolve_pattern ''running'' = Pattern running_pattern"
    by (rule unknown_sport_defaults(3) [OF assms])
  obtain result where r: "analyzeVideo ''running'' (request_filePath ?req) rnd = Inr result"
    and n: "sport result = ''Distance Running''" "sportKey result = ''running''"
    using pat by (simp add: analyzeVideo_def Let_def running_pattern_def)
  from r key have "fst (post_analyze db ?req uuid now rnd) =
      \<lparr>status = 200, body = AnalysisBody uuid result\<rparr>"
    by (simp add: post_analyze_response)
  with n show ?thesis by blast
qed

text \<open>
  C6. The claim is that a sport key outside the registry resolves to the running pattern
  and never makes the analysis fail. The key \<^verbatim>\<open>constructor\<close> is outside the registry,
  but line 248 keeps it, because \<^verbatim>\<open>SPORT_PATTERNS['constructor']\<close> is the inherited
  \<^verbatim>\<open>Object\<close> function; \<^verbatim>\<open>analyzeVideo\<close> then throws, and the request is answered with
  status \<open>500\<close>.
\<close>

theorem post_analyze_constructor_fails:
  "post_analyze db (req\<lparr>body_sport := Some ''constructor''\<rparr>) uuid now rnd =
     (\<lparr>status = 500, body = ErrorBody (message TypeError)\<rparr>, db,
      [''Unhandled error: '' @ message TypeError])"
  by (simp add: post_analyze_def request_sportKey_constructor analyzeVideo_def
      resolve_pattern_inherited Object_prototype_keys_def)

text \<open>
  C7. When the analysis has computed its result and the write of the session fails, the
  request is still answered with status \<open>200\<close> and the session identifier with the
  computed result, which is the response for any state of the database, present or not;
  the database is left as it was and the failure is one line on the console.
\<close>

theorem persistence_failure_absorbed:
  assumes "analyzeVideo (request_sportKey req) (request_filePath req) rnd = Inr result"
      and "insert_session d (session_of uuid (or_null (body_athleteId req)) result
             (request_filePath req) now) = Inl e"
  shows "post_analyze (Some d) req uuid now rnd =
           (\<lparr>status = 200, body = AnalysisBody uuid result\<rparr>, Some d,
            [''DB insert failed: '' @ message e])
         \<and> fst (post_analyze db' req uuid now rnd) =
             \<lparr>status = 200, body = AnalysisBody uuid result\<rparr>"
  using assms post_analyze_response [OF assms(1)]
  by (simp add: post_analyze_def Let_def)

theorem persistence_failure_absorbed_witness:
  "post_analyze (Some failing_db) (sample_request ''yoga'') ''s1'' 100 (\<lambda>_. 1/2) =
     (\<lparr>status = 200, body = AnalysisBody ''s1'' sample_result\<rparr>, Some failing_db,
      [''DB insert failed: disk I/O error''])"
proof -
  let ?req = "sample_request ''yoga''"
  have k: "request_sportKey ?req = ''yoga''" and f: "request_filePath ?req = None"
    by (simp_all add: sample_request_def request_sportKey_def request_filePath_def
        get_pattern_def SPORT_PATTERNS_def or_null_def truthy_def)
  have r: "analyzeVideo (request_sportKey ?req) (request_filePath ?req) (\<lambda>_. 1/2) =
      Inr sample_result"
    unfolding k f by (rule analyzeVideo_yoga)
  have i: "insert_session failing_db
     (session_of ''s1'' (or_null (body_athleteId ?req)) sample_result
        (request_filePath ?req) 100) = Inl SqliteIOError"
    by (simp add: insert_session_def failing_db_def)
  from persistence_failure_absorbed [OF r i] show ?thesis
    by (simp add: message_def)
qed

subsection \<open>The profile store\<close>

lemma find_append_new:
  "i \<notin> set (map a_id xs) \<Longrightarrow>
   find (\<lambda>r. a_id r = i) (xs @ [r]) = (if a_id r = i then Some r else None)"
  by (induction xs) auto

lemma find_map_update:
  assumes "\<And>r. a_id (f r) = a_id r"
  shows "find (\<lambda>r. a_id r = i) (map (\<lambda>r. if a_id r = i then f r else r) xs) =
         map_option f (find (\<lambda>r. a_id r = i) xs)"
  using assms by (induction xs) auto

lemma select_after_insert:
  assumes "writable d" "i \<notin> set (map a_id (athletes d))"
      and "upsert_athlete d i nm ag h w sp lv now = Inr d'"
  shows "select_athlete d' i =
           Some \<lparr>a_id = i, a_name = nm, a_age = ag, height_cm = h, weight_kg = w,
                 a_sport = sp, a_level = lv, a_created_at = now, a_updated_at = now\<rparr>"
    and "writable d'"
  using assms by (auto simp add: upsert_athlete_def select_athlete_def find_append_new)

lemma select_after_update:
  assumes "writable d" "select_athlete d i = Some old"
      and "upsert_athlete d i nm ag h w sp lv now = Inr d'"
  shows "select_athlete d' i =
           Some (old\<lparr>a_name := nm, a_age := ag, height_cm := h, weight_kg := w,
                      a_sport := sp, a_level := lv, a_updated_at := now\<rparr>)"
proof -
  let ?f = "\<lambda>r. r\<lparr>a_name := nm, a_age := ag, height_cm := h, weight_kg := w,
                   a_sport := sp, a_level := lv, a_updated_at := now\<rparr>"
  from assms(2) have mem: "i \<in> set (map a_id (athletes d))"
    by (auto simp add: select_athlete_def find_Some_iff)
  have "find (\<lambda>r. a_id r = i) (map (\<lambda>r. if a_id r = i then ?f r else r) (athletes d)) =
        map_option ?f (find (\<lambda>r. a_id r = i) (athletes d))"
    by (rule find_map_update) simp
  with assms mem show ?thesis
    by (auto simp add: upsert_athlete_def select_athlete_def)
qed

lemma post_profile_ok:
  assumes "writable d" "body_name req = Some nm" "nm \<noteq> []"
  shows "\<exists>d'. post_profile (Some d) req uuid now =
              (\<lparr>status = 200, body = ProfileSaved (request_athleteId req uuid)\<rparr>, Some d')
     \<and> upsert_athlete d (request_athleteId req uuid) nm (or_null_num (body_age req))
         (or_null_num (body_height req)) (or_null_num (body_weight req))
         (or_null (body_profile_sport req)) (or_null (body_level req)) now = Inr d'"
  using assms by (simp add: post_profile_def upsert_athlete_def Let_def)

text \<open>
  C8, as amended. Take a store that accepts writes, a non-empty identifier that it does
  not hold yet, and two profile requests with a name, the first creating the profile
  under that identifier and the second sending the same identifier. Then the stored
  profile has the creation time of the first request and the update time of the second;
  every field of the second request that is neither omitted, \<open>0\<close> nor empty overwrites
  the stored one, and every other optional field is stored as null. So the stored age is
  the age of the second request when that age is not \<open>0\<close>.
\<close>

theorem upsert_twice:
  assumes d: "writable d" and fresh: "i \<notin> set (map a_id (athletes d))" and i: "i \<noteq> []"
      and n1: "body_name r1 = Some n1" "n1 \<noteq> []" and id1: "request_athleteId r1 u1 = i"
      and n2: "body_name r2 = Some n2" "n2 \<noteq> []" and id2: "body_id r2 = Some i"
      and c1: "post_profile (Some d) r1 u1 t1 = (resp1, db1)"
      and c2: "post_profile db1 r2 u2 t2 = (resp2, db2)"
  shows "get_profile db2 i = Some
           \<lparr>a_id = i, a_name = n2, a_age = or_null_num (body_age r2),
            height_cm = or_null_num (body_height r2),
            weight_kg = or_null_num (body_weight r2),
            a_sport = or_null (body_profile_sport r2), a_level = or_null (body_level r2),
            a_created_at = t1, a_updated_at = t2\<rparr>
         \<and> (\<forall>a. body_age r2 = Some a \<and> a \<noteq> 0 \<longrightarrow>
               map_option a_age (get_profile db2 i) = Some (Some a))
         \<and> resp1 = \<lparr>status = 200, body = ProfileSaved i\<rparr>
         \<and> resp2 = \<lparr>status = 200, body = ProfileSaved i\<rparr>"
proof -
  obtain d1 where
    p1: "post_profile (Some d) r1 u1 t1 = (\<lparr>status = 200, body = ProfileSaved i\<rparr>, Some d1)"
    and up1: "upsert_athlete d i n1 (or_null_num (body_age r1))
         (or_null_num (body_height r1)) (or_null_num (body_weight r1))
         (or_null (body_profile_sport r1)) (or_null (body_level r1)) t1 = Inr d1"
    using post_profile_ok [OF d n1, of u1 t1] id1 by auto
  from c1 p1 have db1: "db1 = Some d1"
    and resp1: "resp1 = \<lparr>status = 200, body = ProfileSaved i\<rparr>"
    by simp_all
  note s1 = select_after_insert [OF d fresh up1]
  have id2': "request_athleteId r2 u2 = i"
    using id2 i by (simp add: request_athleteId_def)
  obtain d2 where
    p2: "post_profile (Some d1) r2 u2 t2 = (\<lparr>status = 200, body = ProfileSaved i\<rparr>, Some d2)"
    and up2: "upsert_athlete d1 i n2 (or_null_num (body_age r2))
         (or_null_num (body_height r2)) (or_null_num (body_weight r2))
         (or_null (body_profile_sport r2)) (or_null (body_level r2)) t2 = Inr d2"
    using post_profile_ok [OF s1(2) n2, of u2 t2] id2' by auto
  from c2 p2 db1 have db2: "db2 = Some d2"
    and resp2: "resp2 = \<lparr>status = 200, body = ProfileSaved i\<rparr>"
    by simp_all
  have row: "get_profile db2 i = Some
           \<lparr>a_id = i, a_name = n2, a_age = or_null_num (body_age r2),
            height_cm = or_null_num (body_height r2),
            weight_kg = or_null_num (body_weight r2),
            a_sport = or_null (body_profile_sport r2), a_level = or_null (body_level r2),
            a_created_at = t1, a_updated_at = t2\<rparr>"
    using select_after_update [OF s1(2) s1(1) up2] db2 by (simp add: get_profile_def)
  show ?thesis using row resp1 resp2 by (simp add: or_null_num_def)
qed

lemmas profile_eval = after_two_upserts_def post_profile_def upsert_athlete_def
  request_athleteId_def get_profile_def select_athlete_def sample_profile_def empty_db_def
  or_null_def or_null_num_def truthy_def Let_def

text \<open>
  The claim as it was stated fails for a second request whose age is \<open>0\<close>: the first
  request stores the age \<open>24\<close>, the second sends \<open>0\<close>, and the stored age is null. It
  also fails for the empty identifier, which both requests replace by a fresh one: no
  profile is stored under it.
\<close>

theorem upsert_twice_counterexample:
  "body_age (sample_profile (Some 0)) = Some 0
   \<and> map_option a_age
       (get_profile (after_two_upserts (sample_profile (Some 24)) (sample_profile (Some 0)))
          ''a1'') = Some None
   \<and> get_profile
       (after_two_upserts ((sample_profile (Some 24))\<lparr>body_id := Some []\<rparr>)
          ((sample_profile (Some 25))\<lparr>body_id := Some []\<rparr>)) [] = None"
  by (simp add: profile_eval)

theorem upsert_twice_witness:
  "get_profile (after_two_upserts (sample_profile (Some 24)) (sample_profile (Some 25)))
     ''a1'' =
   Some \<lparr>a_id = ''a1'', a_name = ''Alex Johnson'', a_age = Some 25, height_cm = Some 178,
         weight_kg = Some 74, a_sport = Some ''sprinting'', a_level = None,
         a_created_at = 100, a_updated_at = 200\<rparr>"
proof -
  let ?r1 = "sample_profile (Some 24)" and ?r2 = "sample_profile (Some 25)"
  let ?c1 = "post_profile (Some empty_db) ?r1 ''u1'' 100"
  let ?c2 = "post_profile (snd ?c1) ?r2 ''u2'' 200"
  have "get_profile (snd ?c2) ''a1'' = Some
      \<lparr>a_id = ''a1'', a_name = ''Alex Johnson'', a_age = or_null_num (body_age ?r2),
       height_cm = or_null_num (body_height ?r2), weight_kg = or_null_num (body_weight ?r2),
       a_sport = or_null (body_profile_sport ?r2), a_level = or_null (body_level ?r2),
       a_created_at = 100, a_updated_at = 200\<rparr>"
    using upsert_twice [of empty_db "''a1''" ?r1 "''Alex Johnson''" "''u1''" ?r2
        "''Alex Johnson''" 100 "fst ?c1" "snd ?c1" "''u2''" 200 "fst ?c2" "snd ?c2"]
    by (simp add: empty_db_def sample_profile_def request_athleteId_def)
  then show ?thesis
    by (simp add: after_two_upserts_def sample_profile_def or_null_def or_null_num_def
        truthy_def)
qed

subsection \<open>The session list\<close>

lemma sorted_desc:
  "sorted_wrt (\<lambda>x y. created_at x \<ge> created_at y) (order_by_created_at_desc rows)"
proof -
  have "sorted (map (\<lambda>r. - int (created_at r)) (order_by_created_at_desc rows))"
    unfolding order_by_created_at_desc_def by (rule sorted_sort_key)
  then show ?thesis by (simp add: sorted_map)
qed

lemma mset_order: "mset (order_by_created_at_desc rows) = mset rows"
  by (simp add: order_by_created_at_desc_def)

lemma mset_take_subset: "mset (take k xs) \<subseteq># mset xs"
proof -
  have "mset (take k xs) \<subseteq># mset (take k xs @ drop k xs)"
    by (simp del: append_take_drop_id)
  then show ?thesis by simp
qed

lemma must_be_int_of_int:
  assumes "- (2 ^ 63) < n" and "n < 2 ^ 63"
  shows "must_be_int (Finite (of_int n)) = Inr n"
  using assms by (simp add: must_be_int_def)

lemma must_be_int_Inr:
  "must_be_int v = Inr n \<longleftrightarrow> v = Finite (of_int n) \<and> - (2 ^ 63) < n \<and> n < 2 ^ 63"
  by (cases v) (auto simp add: must_be_int_def)

lemma sql_limit_accepted:
  assumes "- (2 ^ 63) < n" and "n < 2 ^ 63"
  shows "sql_limit (Finite (of_int n)) rows = Inr (if n < 0 then rows else take (nat n) rows)"
  by (simp add: sql_limit_def must_be_int_of_int [OF assms])

lemma sql_limit_refused:
  "must_be_int v = Inl e \<Longrightarrow> sql_limit v rows = Inl SqliteMismatch"
  by (cases v) (auto simp add: sql_limit_def must_be_int_def split: if_splits)

lemma select_queried:
  "(case athleteId of
      None \<Rightarrow> select_sessions d v
    | Some a \<Rightarrow> if a \<noteq> [] then select_sessions_by_athlete d a v else select_sessions d v) =
   sql_limit v (order_by_created_at_desc (queried_sessions d athleteId))"
  by (simp add: select_sessions_def select_sessions_by_athlete_def queried_sessions_def
      split: option.splits)

text \<open>
  A limit that SQLite does not take for an integer (a fraction, \<^verbatim>\<open>NaN\<close>, an infinity, a
  value of magnitude \<open>2 ^ 63\<close> or more) makes the request fail.
\<close>

lemma get_sessions_refused:
  assumes "must_be_int (effective_limit limit) = Inl e"
  shows "get_sessions (Some d) athleteId limit =
           \<lparr>status = 500, body = ErrorBody ''datatype mismatch''\<rparr>"
  unfolding get_sessions_def Let_def select_queried
  by (simp add: sql_limit_refused [OF assms] message_def)

lemma queried_sessions_athlete:
  "a \<noteq> [] \<Longrightarrow> r \<in> set (queried_sessions d (Some a)) \<Longrightarrow> athlete_id r = Some a"
  by (simp add: queried_sessions_def)

lemma get_sessions_accepted:
  assumes "effective_limit limit = Finite (of_int n)" and "- (2 ^ 63) < n" and "n < 2 ^ 63"
  shows "\<exists>rows. get_sessions (Some d) athleteId limit = \<lparr>status = 200, body = SessionList rows\<rparr>
     \<and> mset rows \<subseteq># mset (queried_sessions d athleteId)
     \<and> sorted_wrt (\<lambda>x y. created_at x \<ge> created_at y) rows
     \<and> (0 \<le> n \<longrightarrow> length rows = min (nat n) (length (queried_sessions d athleteId)))
     \<and> (n < 0 \<longrightarrow> mset rows = mset (queried_sessions d athleteId))
     \<and> (\<forall>a. athleteId = Some a \<and> a \<noteq> [] \<longrightarrow> (\<forall>r \<in> set rows. athlete_id r = Some a))"
proof -
  let ?all = "order_by_created_at_desc (queried_sessions d athleteId)"
  let ?rows = "if n < 0 then ?all else take (nat n) ?all"
  have g: "get_sessions (Some d) athleteId limit = \<lparr>status = 200, body = SessionList ?rows\<rparr>"
    unfolding get_sessions_def Let_def select_queried assms(1)
    by (simp add: sql_limit_accepted [OF assms(2,3)])
  have sub: "mset ?rows \<subseteq># mset (queried_sessions d athleteId)"
    using mset_take_subset [of "nat n" ?all] by (simp add: mset_order)
  have srt: "sorted_wrt (\<lambda>x y. created_at x \<ge> created_at y) ?rows"
    by (simp add: sorted_desc sorted_wrt_take)
  have len: "0 \<le> n \<longrightarrow> length ?rows = min (nat n) (length (queried_sessions d athleteId))"
    using mset_order [of "queried_sessions d athleteId"]
    by (auto dest: mset_eq_length)
  have all: "n < 0 \<longrightarrow> mset ?rows = mset (queried_sessions d athleteId)"
    by (simp add: mset_order)
  have ath: "\<forall>a. athleteId = Some a \<and> a \<noteq> [] \<longrightarrow> (\<forall>r \<in> set ?rows. athlete_id r = Some a)"
  proof (intro allI impI ballI)
    fix a r
    assume a: "athleteId = Some a \<and> a \<noteq> []" and r: "r \<in> set ?rows"
    from sub have "set ?rows \<subseteq> set (queried_sessions d athleteId)"
      by (metis set_mset_mono set_mset_mset)
    with r have "r \<in> set (queried_sessions d athleteId)"
      by blast
    with a show "athlete_id r = Some a"
      by (simp add: queried_sessions_athlete)
  qed
  from g sub srt len all ath show ?thesis by blast
qed

text \<open>
  C9, as amended. Let \<open>n\<close> be the limit of the request, twenty when it gives none. When
  \<open>n\<close> is a whole number strictly between \<open>- 2 ^ 63\<close> and \<open>2 ^ 63\<close>, the list answers with
  stored sessions, those of the athlete when the request names a non-empty one, newest
  first: the creation times never increase along the list (sessions of the same second
  follow each other). For an \<open>n\<close> that is not negative the list has \<open>n\<close> sessions, or all
  of them if they are fewer; for a negative \<open>n\<close> it has all of them. For any other limit
  the request is answered with status \<open>500\<close> and no list.
\<close>

theorem get_sessions_newest_first:
  "(\<forall>n. effective_limit limit = Finite (of_int n) \<and> - (2 ^ 63) < n \<and> n < 2 ^ 63 \<longrightarrow>
      (\<exists>rows. get_sessions (Some d) athleteId limit =
                \<lparr>status = 200, body = SessionList rows\<rparr>
         \<and> mset rows \<subseteq># mset (queried_sessions d athleteId)
         \<and> sorted_wrt (\<lambda>x y. created_at x \<ge> created_at y) rows
         \<and> (0 \<le> n \<longrightarrow> length rows = min (nat n) (length (queried_sessions d athleteId)))
         \<and> (n < 0 \<longrightarrow> mset rows = mset (queried_sessions d athleteId))
         \<and> (\<forall>a. athleteId = Some a \<and> a \<noteq> [] \<longrightarrow>
               (\<forall>r \<in> set rows. athlete_id r = Some a))))
   \<and> ((\<forall>n. \<not> (effective_limit limit = Finite (of_int n) \<and> - (2 ^ 63) < n \<and> n < 2 ^ 63)) \<longrightarrow>
        get_sessions (Some d) athleteId limit =
          \<lparr>status = 500, body = ErrorBody ''datatype mismatch''\<rparr>)"
proof (intro conjI allI impI)
  fix n
  assume "effective_limit limit = Finite (of_int n) \<and> - (2 ^ 63) < n \<and> n < 2 ^ 63"
  then show "\<exists>rows. get_sessions (Some d) athleteId limit =
                \<lparr>status = 200, body = SessionList rows\<rparr>
         \<and> mset rows \<subseteq># mset (queried_sessions d athleteId)
         \<and> sorted_wrt (\<lambda>x y. created_at x \<ge> created_at y) rows
         \<and> (0 \<le> n \<longrightarrow> length rows = min (nat n) (length (queried_sessions d athleteId)))
         \<and> (n < 0 \<longrightarrow> mset rows = mset (queried_sessions d athleteId))
         \<and> (\<forall>a. athleteId = Some a \<and> a \<noteq> [] \<longrightarrow>
               (\<forall>r \<in> set rows. athlete_id r = Some a))"
    using get_sessions_accepted [of limit n d athleteId] by blast
next
  assume none: "\<forall>n. \<not> (effective_limit limit = Finite (of_int n) \<and> - (2 ^ 63) < n \<and>
    n < 2 ^ 63)"
  then have "\<forall>n. must_be_int (effective_limit limit) \<noteq> Inr n"
    by (simp add: must_be_int_Inr)
  then obtain e where "must_be_int (effective_limit limit) = Inl e"
    by (cases "must_be_int (effective_limit limit)") auto
  then show "get_sessions (Some d) athleteId limit =
      \<lparr>status = 500, body = ErrorBody ''datatype mismatch''\<rparr>"
    by (rule get_sessions_refused)
qed

lemmas sessions_eval = get_sessions_def effective_limit_def select_sessions_def
  select_sessions_by_athlete_def sql_limit_def must_be_int_def order_by_created_at_desc_def
  sample_session_def session_of_def sample_result_def message_def

text \<open>The store of the counterexample is reached by two requests of the same second.\<close>

lemma tie_db_reachable:
  "insert_session empty_db (sample_session ''s1'' (Some ''a1'') 100) = Inr d1 \<Longrightarrow>
   insert_session d1 (sample_session ''s2'' (Some ''a1'') 100) = Inr tie_db"
  by (auto simp add: insert_session_def empty_db_def tie_db_def sample_session_def
      session_of_def split: if_splits)

text \<open>
  The claim as it was stated fails on every count. With the limit \<open>-1\<close> and an empty
  athlete parameter the list has two sessions, more than the limit; their creation
  times are equal, so the order is not strict; and they refer to the athlete \<^verbatim>\<open>a1\<close>,
  not to the parameter. With the limit \<open>1.5\<close> or \<open>- 2 ^ 63\<close> there is no list: the
  statement fails and the request is answered with status \<open>500\<close>.
\<close>

theorem get_sessions_counterexample:
  "get_sessions (Some tie_db) (Some []) (Some (Finite (- 1))) =
     \<lparr>status = 200, body = SessionList
        [sample_session ''s1'' (Some ''a1'') 100, sample_session ''s2'' (Some ''a1'') 100]\<rparr>
   \<and> \<not> int (length [sample_session ''s1'' (Some ''a1'') 100,
                     sample_session ''s2'' (Some ''a1'') 100]) \<le> - 1
   \<and> \<not> created_at (sample_session ''s1'' (Some ''a1'') 100) >
        created_at (sample_session ''s2'' (Some ''a1'') 100)
   \<and> athlete_id (sample_session ''s1'' (Some ''a1'') 100) \<noteq> Some []
   \<and> get_sessions (Some tie_db) None (Some (Finite (3/2))) =
       \<lparr>status = 500, body = ErrorBody ''datatype mismatch''\<rparr>
   \<and> get_sessions (Some tie_db) None (Some (Finite (- (2 ^ 63)))) =
       \<lparr>status = 500, body = ErrorBody ''datatype mismatch''\<rparr>"
  by (simp add: sessions_eval tie_db_def)

theorem get_sessions_newest_first_witness:
  "get_sessions (Some three_db) (Some ''a1'') (Some (Finite 1)) =
     \<lparr>status = 200, body = SessionList [sample_session ''s3'' (Some ''a1'') 300]\<rparr>
   \<and> athlete_id (sample_session ''s3'' (Some ''a1'') 300) = Some ''a1''"
proof -
  have e: "get_sessions (Some three_db) (Some ''a1'') (Some (Finite 1)) =
     \<lparr>status = 200, body = SessionList [sample_session ''s3'' (Some ''a1'') 300]\<rparr>"
    by (simp add: sessions_eval three_db_def)
  have l: "effective_limit (Some (Finite 1)) = Finite (of_int 1)"
    by (simp add: effective_limit_def)
  from get_sessions_newest_first [of "Some (Finite 1)" three_db "Some ''a1''"] l e
  show ?thesis by auto
qed

end
